theory Spec2Isabelle
  imports Complex_Main "HOL-Library.Multiset"
begin

section \<open>Data model\<close>

text \<open>
  The recommendation engine of \<^verbatim>\<open>app.py\<close> works on three pandas values: the sales
  table \<^verbatim>\<open>df_vendas\<close> (one row per record, columns \<^verbatim>\<open>CustomerKey\<close>, \<^verbatim>\<open>ProductKey\<close>,
  \<^verbatim>\<open>TotalQtd\<close>), the customer-by-product matrix and the customer-by-customer similarity
  matrix. Customer and product keys are integers. Quantities and similarity scores are
  real numbers: comparisons, maxima and sorting behave on them as on finite
  floating-point values. The rounding of the similarity computation is a parameter of
  its model (section Arithmetic).
\<close>

record venda =
  CustomerKey :: int
  ProductKey :: int
  TotalQtd :: real

text \<open>
  A pandas Series is a sequence of labelled values; a DataFrame has row labels
  (\<^verbatim>\<open>.index\<close>), column labels (\<^verbatim>\<open>.columns\<close>) and one value per pair of labels.
\<close>

type_synonym serie = "(int \<times> real) list"

record frame =
  index :: "int list"
  columns :: "int list"
  cell :: "int \<Rightarrow> int \<Rightarrow> real"

text \<open>A label that is missing makes pandas' label lookup raise \<^verbatim>\<open>KeyError\<close>.\<close>

datatype error = KeyError int

definition loc :: "frame \<Rightarrow> int \<Rightarrow> error + serie" where
  \<comment> \<open>\<^verbatim>\<open>df.loc[r]\<close>: the row with label \<open>r\<close>, labelled by the columns.\<close>
  "loc df r =
     (if r \<in> set (index df) then Inr (map (\<lambda>c. (c, cell df r c)) (columns df))
      else Inl (KeyError r))"

definition getitem :: "frame \<Rightarrow> int \<Rightarrow> error + serie" where
  \<comment> \<open>\<^verbatim>\<open>df[c]\<close>: the column with label \<open>c\<close>, labelled by the index.\<close>
  "getitem df c =
     (if c \<in> set (columns df) then Inr (map (\<lambda>r. (r, cell df r c)) (index df))
      else Inl (KeyError c))"

definition positivos :: "serie \<Rightarrow> int list" where
  \<comment> \<open>\<^verbatim>\<open>s[s > 0].index\<close>: the labels whose value is positive.\<close>
  "positivos s = map fst (filter (\<lambda>lv. 0 < snd lv) s)"

section \<open>criar\_matriz\_interacao\<close>

text \<open>
  \<^verbatim>\<open>df_vendas.pivot_table(index='CustomerKey', columns='ProductKey', values='TotalQtd',
  fill_value=0)\<close>. No \<^verbatim>\<open>aggfunc\<close> is passed, so pandas aggregates the records of one
  (customer, product) pair with its default, the arithmetic mean. Row and column labels
  are the distinct keys in ascending order; a pair without records is filled with 0.
\<close>

definition grupo :: "venda list \<Rightarrow> int \<Rightarrow> int \<Rightarrow> real list" where
  "grupo df_vendas c p =
     map TotalQtd (filter (\<lambda>v. CustomerKey v = c \<and> ProductKey v = p) df_vendas)"

definition mean :: "real list \<Rightarrow> real" where
  "mean qs = sum_list qs / real (length qs)"

definition criar_matriz_interacao :: "venda list \<Rightarrow> frame" where
  "criar_matriz_interacao df_vendas =
     \<lparr> index = sort (remdups (map CustomerKey df_vendas)),
       columns = sort (remdups (map ProductKey df_vendas)),
       cell = (\<lambda>c p. if grupo df_vendas c p = [] then 0 else mean (grupo df_vendas c p)) \<rparr>"

section \<open>Arithmetic\<close>

text \<open>
  pandas and scikit-learn compute in IEEE binary64. The similarity computation takes
  the rounding of its operations as a parameter \<open>arred\<close>: \<open>exato\<close> is arithmetic without
  rounding, \<open>f64\<close> rounds to the nearest number with 53 significant bits, ties to the
  even one (overflow, subnormal numbers and the special values are not represented).
\<close>

definition exato :: "real \<Rightarrow> real" where
  "exato x = x"

definition mais_proximo :: "real \<Rightarrow> int" where
  \<comment> \<open>The nearest integer, ties to even.\<close>
  "mais_proximo y =
     (let n = \<lfloor>y\<rfloor>; r = y - of_int n
      in if r < 1 / 2 then n else if 1 / 2 < r then n + 1 else if even n then n else n + 1)"

definition arredondar :: "nat \<Rightarrow> real \<Rightarrow> real" where
  \<comment> \<open>Rounding to \<open>p + 1\<close> significant bits.\<close>
  "arredondar p x =
     (if x = 0 then 0
      else let u = 2 powr (of_int \<lfloor>log 2 \<bar>x\<bar>\<rfloor> - real p)
           in of_int (mais_proximo (x / u)) * u)"

definition f64 :: "real \<Rightarrow> real" where
  "f64 x = arredondar 52 x"

section \<open>calcular\_similaridades\<close>

text \<open>
  \<^verbatim>\<open>cosine_similarity(matriz)\<close> of scikit-learn scales every row to unit Euclidean
  length, leaving a row of norm 0 unscaled, and returns the matrix of dot products of
  the scaled rows. The result is relabelled with the customers on both axes. Every
  product, every partial sum, the square root and every quotient is rounded; sums run
  from left to right.
\<close>

definition linha :: "frame \<Rightarrow> int \<Rightarrow> real list" where
  "linha matriz r = map (cell matriz r) (columns matriz)"

definition soma :: "(real \<Rightarrow> real) \<Rightarrow> real list \<Rightarrow> real" where
  "soma arred xs = foldl (\<lambda>acc x. arred (acc + x)) 0 xs"

definition norma :: "(real \<Rightarrow> real) \<Rightarrow> real list \<Rightarrow> real" where
  "norma arred v = arred (sqrt (soma arred (map (\<lambda>x. arred (x * x)) v)))"

definition normalizar :: "(real \<Rightarrow> real) \<Rightarrow> real list \<Rightarrow> real list" where
  "normalizar arred v =
     (let n = norma arred v in map (\<lambda>x. arred (x / (if n = 0 then 1 else n))) v)"

definition dot :: "(real \<Rightarrow> real) \<Rightarrow> real list \<Rightarrow> real list \<Rightarrow> real" where
  "dot arred u v = soma arred (map (\<lambda>(x, y). arred (x * y)) (zip u v))"

definition calcular_similaridades :: "(real \<Rightarrow> real) \<Rightarrow> frame \<Rightarrow> frame" where
  "calcular_similaridades arred matriz =
     \<lparr> index = index matriz,
       columns = index matriz,
       cell = (\<lambda>i j. dot arred (normalizar arred (linha matriz i))
                               (normalizar arred (linha matriz j))) \<rparr>"

section \<open>obter\_recomendacoes\<close>

text \<open>
  The function, without its comments:
  \<^verbatim>\<open>
  def obter_recomendacoes(cliente_id, matriz, df_similaridade, n_vizinhos=5):
      produtos_comprados = set(matriz.loc[cliente_id][matriz.loc[cliente_id] > 0].index)
      similares = df_similaridade[cliente_id].sort_values(ascending=False)[1:n_vizinhos+1]
      recomendacoes = {}
      for vizinho_id, similaridade_score in similares.items():
          produtos_vizinho = set(matriz.loc[vizinho_id][matriz.loc[vizinho_id] > 0].index)
          produtos_novos = produtos_vizinho - produtos_comprados
          for produto in produtos_novos:
              if produto not in recomendacoes:
                  recomendacoes[produto] = {'score': similaridade_score,
                                            'vizinhos': [vizinho_id]}
              else:
                  recomendacoes[produto]['vizinhos'].append(vizinho_id)
                  recomendacoes[produto]['score'] = max(recomendacoes[produto]['score'],
                                                        similaridade_score)
      recomendacoes_ordenadas = sorted(recomendacoes.items(),
                                       key=lambda x: x[1]['score'], reverse=True)
      return produtos_comprados, similares, recomendacoes_ordenadas
  \<close>
  Its three label lookups (\<^verbatim>\<open>matriz.loc[cliente_id]\<close>, \<^verbatim>\<open>df_similaridade[cliente_id]\<close>,
  \<^verbatim>\<open>matriz.loc[vizinho_id]\<close>) are the only places where it can fail.

  Two orders are left open by the libraries and are parameters of the model.

  \<^item> \<^verbatim>\<open>sort_values(ascending=False)\<close> returns the entries of the column by descending
  value; pandas' default sort does not say in which order entries of equal value come
  out. The parameter \<open>sort_values\<close> is any function that returns a descending
  rearrangement of its argument.

  \<^item> \<^verbatim>\<open>for produto in produtos_novos\<close> visits a Python set, in the order of its hash
  table. The parameter \<open>iterar\<close> takes the products of the neighbour and of the target,
  as the two sets are built from them, and is any function that returns each element of
  the difference once.
\<close>

definition sort_values_valido :: "(serie \<Rightarrow> serie) \<Rightarrow> bool" where
  "sort_values_valido sort_values \<longleftrightarrow>
     (\<forall>s. mset (sort_values s) = mset s \<and> sorted_wrt (\<lambda>a b. snd b \<le> snd a) (sort_values s))"

definition iteracao_valida :: "(int list \<Rightarrow> int list \<Rightarrow> int list) \<Rightarrow> bool" where
  "iteracao_valida iterar \<longleftrightarrow>
     (\<forall>ps cs. distinct (iterar ps cs) \<and> set (iterar ps cs) = set ps - set cs)"

text \<open>
  Python's \<^verbatim>\<open>sorted(..., reverse=True)\<close> is stable: it reverses the input, sorts
  ascending and reverses the outcome, so that equal keys keep their original order.
\<close>

definition ordenar_desc :: "('a \<Rightarrow> real) \<Rightarrow> 'a list \<Rightarrow> 'a list" where
  "ordenar_desc f xs = rev (sort_key f (rev xs))"

definition fatia1 :: "'a list \<Rightarrow> int \<Rightarrow> 'a list" where
  \<comment> \<open>The positional slice \<^verbatim>\<open>xs[1:stop]\<close>; a negative \<open>stop\<close> counts from the end.\<close>
  "fatia1 xs stop =
     (let n = int (length xs);
          e = (if stop < 0 then max 0 (n + stop) else min stop n)
      in drop 1 (take (nat e) xs))"

record info =
  score :: real
  vizinhos :: "int list"

text \<open>
  The dictionary \<^verbatim>\<open>recomendacoes\<close> keeps its keys in insertion order, which the final
  stable sort makes visible; it is an association list. \<open>registrar\<close> is the body of the
  inner loop for one product.
\<close>

type_synonym recomendacoes = "(int \<times> info) list"

fun registrar :: "int \<Rightarrow> real \<Rightarrow> recomendacoes \<Rightarrow> int \<Rightarrow> recomendacoes" where
  "registrar vizinho_id s [] produto = [(produto, \<lparr>score = s, vizinhos = [vizinho_id]\<rparr>)]"
| "registrar vizinho_id s ((q, i) # d) produto =
     (if q = produto
      then (q, \<lparr>score = max (score i) s, vizinhos = vizinhos i @ [vizinho_id]\<rparr>) # d
      else (q, i) # registrar vizinho_id s d produto)"

text \<open>The loop over \<^verbatim>\<open>similares.items()\<close>; \<open>comprados\<close> are the target's products.\<close>

fun coletar ::
  "(int list \<Rightarrow> int list \<Rightarrow> int list) \<Rightarrow> frame \<Rightarrow> int list \<Rightarrow> serie \<Rightarrow> recomendacoes
     \<Rightarrow> error + recomendacoes" where
  "coletar iterar matriz comprados [] d = Inr d"
| "coletar iterar matriz comprados ((vizinho_id, s) # resto) d =
     (case loc matriz vizinho_id of
        Inl e \<Rightarrow> Inl e
      | Inr l \<Rightarrow>
          coletar iterar matriz comprados resto
            (foldl (registrar vizinho_id s) d (iterar (positivos l) comprados)))"

definition obter_recomendacoes ::
  "(serie \<Rightarrow> serie) \<Rightarrow> (int list \<Rightarrow> int list \<Rightarrow> int list) \<Rightarrow>
   int \<Rightarrow> frame \<Rightarrow> frame \<Rightarrow> int \<Rightarrow> error + (int set \<times> serie \<times> recomendacoes)" where
  "obter_recomendacoes sort_values iterar cliente_id matriz df_similaridade n_vizinhos =
     (case loc matriz cliente_id of
        Inl e \<Rightarrow> Inl e
      | Inr l \<Rightarrow>
          let produtos_comprados = set (positivos l) in
          (case getitem df_similaridade cliente_id of
             Inl e \<Rightarrow> Inl e
           | Inr col \<Rightarrow>
               let similares = fatia1 (sort_values col) (n_vizinhos + 1) in
               (case coletar iterar matriz (positivos l) similares [] of
                  Inl e \<Rightarrow> Inl e
                | Inr d \<Rightarrow>
                    Inr (produtos_comprados, similares,
                         ordenar_desc (\<lambda>x. score (snd x)) d))))"

text \<open>
  One admissible choice of the two orders: equal values stay in the order of the index,
  and a set is visited in the order of the columns.
\<close>

definition ordem_estavel :: "serie \<Rightarrow> serie" where
  "ordem_estavel s = ordenar_desc snd s"

definition em_ordem :: "int list \<Rightarrow> int list \<Rightarrow> int list" where
  "em_ordem ps cs = remdups (filter (\<lambda>p. p \<notin> set cs) ps)"

section \<open>Notions used to state the properties\<close>

text \<open>
  The products a customer has bought are the column labels with a positive cell in the
  customer's row; this is what \<^verbatim>\<open>matriz.loc[c][matriz.loc[c] > 0].index\<close> yields
  when \<open>c\<close> is a row.
\<close>

definition produtos_de :: "frame \<Rightarrow> int \<Rightarrow> int list" where
  "produtos_de matriz c = filter (\<lambda>p. 0 < cell matriz c p) (columns matriz)"

text \<open>
  The similarity scores of the selected neighbours that bought a given product, in the
  order of the neighbour ranking.
\<close>

definition apoio :: "frame \<Rightarrow> serie \<Rightarrow> int \<Rightarrow> real list" where
  "apoio matriz similares produto =
     map snd (filter (\<lambda>vs. produto \<in> set (produtos_de matriz (fst vs))) similares)"

text \<open>The score stored for a product in the dictionary, if the product is a key.\<close>

definition pontos :: "recomendacoes \<Rightarrow> int \<Rightarrow> real option" where
  "pontos d p = map_option score (map_of d p)"

text \<open>
  What the loop does to the score of one product when the scores \<open>ss\<close> arrive one after
  the other: the first creates the entry, every later one is combined by \<^verbatim>\<open>max\<close>.
\<close>

fun junta :: "real option \<Rightarrow> real list \<Rightarrow> real option" where
  "junta a [] = a"
| "junta a (s # ss) = junta (Some (case a of None \<Rightarrow> s | Some x \<Rightarrow> max x s)) ss"


section \<open>Sample data\<close>

text \<open>
  Four customers and four products. The quantity vectors all have Euclidean norm 5, so
  every cosine is a fraction: in exact arithmetic customer 1 has similarity 16/25 with
  customer 3, 12/25 with customer 2 and 9/25 with customer 4.
\<close>

definition vendas_ex :: "venda list" where
  "vendas_ex =
     [\<lparr>CustomerKey = 1, ProductKey = 10, TotalQtd = 3\<rparr>,
      \<lparr>CustomerKey = 1, ProductKey = 20, TotalQtd = 4\<rparr>,
      \<lparr>CustomerKey = 2, ProductKey = 10, TotalQtd = 4\<rparr>,
      \<lparr>CustomerKey = 2, ProductKey = 30, TotalQtd = 3\<rparr>,
      \<lparr>CustomerKey = 3, ProductKey = 20, TotalQtd = 4\<rparr>,
      \<lparr>CustomerKey = 3, ProductKey = 30, TotalQtd = 3\<rparr>,
      \<lparr>CustomerKey = 4, ProductKey = 10, TotalQtd = 3\<rparr>,
      \<lparr>CustomerKey = 4, ProductKey = 40, TotalQtd = 4\<rparr>]"

definition matriz_ex :: frame where
  "matriz_ex = criar_matriz_interacao vendas_ex"

definition sim_ex :: frame where
  "sim_ex = calcular_similaridades exato matriz_ex"

text \<open>Two customers with the same single purchase: all four similarities are 1.\<close>

definition vendas_iguais :: "venda list" where
  "vendas_iguais =
     [\<lparr>CustomerKey = 1, ProductKey = 10, TotalQtd = 1\<rparr>,
      \<lparr>CustomerKey = 2, ProductKey = 10, TotalQtd = 1\<rparr>]"

text \<open>
  Customers 2 and 3 are equally similar to customer 1 (cosine 3/5). In the first data
  set customer 2 adds product 30 and customer 3 adds product 20; in the second the two
  have changed places. The similarity column of customer 1 is the same in both.
\<close>

definition vendas_empate :: "venda list" where
  "vendas_empate =
     [\<lparr>CustomerKey = 1, ProductKey = 10, TotalQtd = 5\<rparr>,
      \<lparr>CustomerKey = 2, ProductKey = 10, TotalQtd = 3\<rparr>,
      \<lparr>CustomerKey = 2, ProductKey = 30, TotalQtd = 4\<rparr>,
      \<lparr>CustomerKey = 3, ProductKey = 10, TotalQtd = 3\<rparr>,
      \<lparr>CustomerKey = 3, ProductKey = 20, TotalQtd = 4\<rparr>]"

definition vendas_empate_troca :: "venda list" where
  "vendas_empate_troca =
     [\<lparr>CustomerKey = 1, ProductKey = 10, TotalQtd = 5\<rparr>,
      \<lparr>CustomerKey = 2, ProductKey = 10, TotalQtd = 3\<rparr>,
      \<lparr>CustomerKey = 2, ProductKey = 20, TotalQtd = 4\<rparr>,
      \<lparr>CustomerKey = 3, ProductKey = 10, TotalQtd = 3\<rparr>,
      \<lparr>CustomerKey = 3, ProductKey = 30, TotalQtd = 4\<rparr>]"

text \<open>One (customer, product) pair recorded twice, with quantities 1 and 3.\<close>

definition vendas_duplicadas :: "venda list" where
  "vendas_duplicadas =
     [\<lparr>CustomerKey = 1, ProductKey = 10, TotalQtd = 1\<rparr>,
      \<lparr>CustomerKey = 1, ProductKey = 10, TotalQtd = 3\<rparr>]"

text \<open>A similarity matrix over the customers 1 and 7 only.\<close>

definition sim_alheia :: frame where
  "sim_alheia = \<lparr> index = [1, 7], columns = [1, 7], cell = (\<lambda>i j. if i = j then 1 else 1 / 2) \<rparr>"

text \<open>One customer who bought one unit of each of two products.\<close>

definition vendas_um_um :: "venda list" where
  "vendas_um_um =
     [\<lparr>CustomerKey = 1, ProductKey = 10, TotalQtd = 1\<rparr>,
      \<lparr>CustomerKey = 1, ProductKey = 20, TotalQtd = 1\<rparr>]"

text \<open>Customer 1 has a record of quantity 0 and nothing else; customer 2 bought 2 units.\<close>

definition vendas_nulo :: "venda list" where
  "vendas_nulo =
     [\<lparr>CustomerKey = 1, ProductKey = 10, TotalQtd = 0\<rparr>,
      \<lparr>CustomerKey = 2, ProductKey = 10, TotalQtd = 2\<rparr>]"

section \<open>Basic facts\<close>

lemma sqrt_25: "sqrt 25 = 5"
  by (rule real_sqrt_unique) simp_all

lemmas avaliar =
  obter_recomendacoes_def criar_matriz_interacao_def calcular_similaridades_def
  loc_def getitem_def positivos_def grupo_def mean_def linha_def norma_def normalizar_def
  dot_def soma_def exato_def ordenar_desc_def ordem_estavel_def em_ordem_def fatia1_def
  Let_def sqrt_25

lemmas dados =
  vendas_ex_def matriz_ex_def sim_ex_def vendas_iguais_def vendas_empate_def
  vendas_empate_troca_def vendas_duplicadas_def sim_alheia_def vendas_um_um_def
  vendas_nulo_def

subsection \<open>Rounding\<close>

lemma mais_proximo_perto:
  assumes "\<bar>y - of_int m\<bar> < 1 / 2"
  shows "mais_proximo y = m"
proof (cases "of_int m \<le> y")
  case True
  with assms have "\<lfloor>y\<rfloor> = m" by (intro floor_unique) auto
  with assms True show ?thesis by (simp add: mais_proximo_def Let_def)
next
  case False
  with assms have f: "\<lfloor>y\<rfloor> = m - 1" by (intro floor_unique) auto
  have "1 / 2 < y - of_int (m - 1)" using assms False by auto
  with f show ?thesis by (simp add: mais_proximo_def Let_def)
qed

text \<open>
  A number \<open>x\<close> at or above \<open>2 ^ p * u\<close>, for a power \<open>u\<close> of two, and closer than
  \<open>u / 2\<close> to the multiple \<open>m * u\<close> with \<open>m\<close> below \<open>2 ^ (p + 1)\<close>, is rounded to
  \<open>m * u\<close>.
\<close>

lemma arredondar_perto:
  fixes m e :: int and u :: real
  assumes u: "u = 2 powr of_int e"
    and m: "m < 2 ^ (p + 1)"
    and lo: "2 ^ p * u \<le> x"
    and d: "\<bar>x - of_int m * u\<bar> < u / 2"
  shows "arredondar p x = of_int m * u"
proof -
  have u0: "0 < u" using u by simp
  have "0 < 2 ^ p * u" using u0 by simp
  with lo have x0: "0 < x" by linarith
  have "m + 1 \<le> 2 ^ (p + 1)" using m by simp
  then have "(of_int (m + 1) :: real) \<le> of_int (2 ^ (p + 1))" by (simp only: of_int_le_iff)
  then have m1: "of_int m + 1 \<le> (2 ^ (p + 1) :: real)" by simp
  have "(of_int m + 1) * u \<le> 2 ^ (p + 1) * u"
    using m1 u0 by (intro mult_right_mono) simp_all
  then have "of_int m * u + u / 2 < 2 ^ (p + 1) * u"
    using u0 by (simp add: algebra_simps)
  with d have hi: "x < 2 ^ (p + 1) * u" by linarith
  have pp: "(2::real) ^ p * u = 2 powr (of_int e + real p)"
    unfolding u by (simp add: powr_add powr_realpow mult.commute)
  have pp1: "(2::real) ^ (p + 1) * u = 2 powr (of_int e + real p + 1)"
    unfolding u by (simp add: powr_add powr_realpow mult.commute)
  have "\<lfloor>log 2 x\<rfloor> = e + int p"
  proof (rule floor_unique)
    have "2 powr (of_int e + real p) \<le> x" using lo pp by simp
    then have "of_int e + real p \<le> log 2 x" using x0 by (simp add: le_log_iff)
    then show "of_int (e + int p) \<le> log 2 x" by simp
    have "x < 2 powr (of_int e + real p + 1)" using hi pp1 by simp
    then have "log 2 x < of_int e + real p + 1" using x0 by (simp add: log_less_iff)
    then show "log 2 x < of_int (e + int p) + 1" by simp
  qed
  then have ex: "2 powr (of_int \<lfloor>log 2 \<bar>x\<bar>\<rfloor> - real p) = u" using x0 u by simp
  have "x / u - of_int m = (x - of_int m * u) / u"
    using u0 by (simp add: field_simps)
  then have "\<bar>x / u - of_int m\<bar> = \<bar>x - of_int m * u\<bar> / u"
    using u0 by (simp add: abs_divide)
  also have "\<dots> < 1 / 2" using d u0 by (simp add: field_simps)
  finally have "mais_proximo (x / u) = m" by (rule mais_proximo_perto)
  with ex x0 show ?thesis by (simp add: arredondar_def Let_def)
qed

text \<open>The same for binary64 and a unit \<open>1 / 2 ^ k\<close>.\<close>

lemma f64_perto:
  fixes m :: int
  assumes m: "m < 2 ^ 53"
    and lo: "2 ^ 52 / 2 ^ k \<le> x"
    and d: "\<bar>x - of_int m / 2 ^ k\<bar> < 1 / 2 ^ (k + 1)"
  shows "f64 x = of_int m / 2 ^ k"
proof -
  have u: "(1 / 2 ^ k :: real) = 2 powr of_int (- int k)"
    by (simp add: powr_minus_divide powr_realpow)
  have "arredondar 52 x = of_int m * (1 / 2 ^ k)"
  proof (rule arredondar_perto [OF u])
    show "m < 2 ^ (52 + 1)" using m by simp
    show "2 ^ 52 * (1 / 2 ^ k) \<le> x" using lo by simp
    show "\<bar>x - of_int m * (1 / 2 ^ k)\<bar> < 1 / 2 ^ k / 2" using d by simp
  qed
  then show ?thesis by (simp add: f64_def)
qed


lemma f64_1: "f64 1 = 1"
  using f64_perto [of "2 ^ 52" 52 1] by simp







lemma f64_fundido:
  "f64 (6369051672525772 / 2 ^ 53 * (6369051672525772 / 2 ^ 53) + 9007199254740990 / 2 ^ 54)
     = 9007199254740990 / 2 ^ 53"
  using f64_perto [of 9007199254740990 53
      "6369051672525772 / 2 ^ 53 * (6369051672525772 / 2 ^ 53) + 9007199254740990 / 2 ^ 54"]
  by (simp add: abs_less_iff)

subsection \<open>Label lookup\<close>

lemma positivos_loc: "loc matriz c = Inr l \<Longrightarrow> positivos l = produtos_de matriz c"
  by (auto simp add: loc_def positivos_def produtos_de_def filter_map comp_def split: if_splits)

lemma loc_Inr: "c \<in> set (index matriz) \<Longrightarrow> \<exists>l. loc matriz c = Inr l"
  by (simp add: loc_def)

subsection \<open>Descending sort and slicing\<close>

lemma set_ordenar_desc [simp]: "set (ordenar_desc f xs) = set xs"
  by (simp add: ordenar_desc_def)

lemma sorted_ordenar_desc: "sorted_wrt (\<lambda>a b. f b \<le> f a) (ordenar_desc f xs)"
proof -
  have "sorted (map f (sort_key f (rev xs)))" by simp
  then have "sorted_wrt (\<lambda>a b. f a \<le> f b) (sort_key f (rev xs))"
    by (simp add: sorted_map)
  then show ?thesis
    by (simp add: ordenar_desc_def sorted_wrt_rev)
qed


lemma fatia1_nonneg: "0 \<le> k \<Longrightarrow> fatia1 xs (k + 1) = take (nat k) (drop 1 xs)"
  by (auto simp add: fatia1_def Let_def drop_take min_def nat_add_distrib)

lemma set_fatia1: "set (fatia1 xs stop) \<subseteq> set xs"
  by (auto simp add: fatia1_def Let_def dest!: in_set_dropD in_set_takeD)

lemma set_fatia1_mono:
  assumes "0 \<le> k" and "k \<le> k'"
  shows "set (fatia1 xs (k + 1)) \<subseteq> set (fatia1 xs (k' + 1))"
proof -
  have "nat k \<le> nat k'" using assms by simp
  then have "set (take (nat k) (drop 1 xs)) \<subseteq> set (take (nat k') (drop 1 xs))"
    by (rule set_take_subset_set_take)
  then show ?thesis using assms by (simp add: fatia1_nonneg)
qed

text \<open>The two orders chosen for the examples are admissible.\<close>

lemma mset_ordenar_desc [simp]: "mset (ordenar_desc f xs) = mset xs"
  by (simp add: ordenar_desc_def)

lemma ordem_estavel_valida: "sort_values_valido ordem_estavel"
  by (simp add: sort_values_valido_def ordem_estavel_def sorted_ordenar_desc)

lemma em_ordem_valida: "iteracao_valida em_ordem"
  by (auto simp add: iteracao_valida_def em_ordem_def)

lemma set_sort_values: "sort_values_valido sort_values \<Longrightarrow> set (sort_values s) = set s"
  by (metis sort_values_valido_def mset_eq_setD)


text \<open>
  An entry whose value is strictly greater than every other value comes first, whatever
  the order among equal values is.
\<close>

lemma sort_values_maximo:
  assumes v: "sort_values_valido sort_values"
    and x: "x \<in> set s" and d: "distinct s"
    and m: "\<forall>y\<in>set s. y \<noteq> x \<longrightarrow> snd y < snd x"
  shows "\<exists>resto. sort_values s = x # resto
           \<and> mset resto = mset (filter (\<lambda>y. y \<noteq> x) s)
           \<and> sorted_wrt (\<lambda>a b. snd b \<le> snd a) resto"
proof -
  from v have ms: "mset (sort_values s) = mset s"
    and so: "sorted_wrt (\<lambda>a b. snd b \<le> snd a) (sort_values s)"
    by (simp_all add: sort_values_valido_def)
  from ms have st: "set (sort_values s) = set s" by (rule mset_eq_setD)
  with x obtain h resto where hr: "sort_values s = h # resto"
    by (cases "sort_values s") auto
  have "h = x"
  proof (rule ccontr)
    assume n: "h \<noteq> x"
    with x st hr have "x \<in> set resto" by auto
    with so hr have "snd x \<le> snd h" by auto
    moreover have "h \<in> set s" using st hr by auto
    ultimately show False using m n by fastforce
  qed
  have f: "filter (\<lambda>y. y \<noteq> x) s = remove1 x s"
    using d by (induction s) (auto simp add: filter_id_conv)
  have "mset (remove1 x (sort_values s)) = mset (remove1 x s)"
    by (simp only: mset_remove1 ms)
  with hr \<open>h = x\<close> have "mset resto = mset (remove1 x s)" by simp
  with hr \<open>h = x\<close> so f show ?thesis by simp
qed

lemma mset_par:
  assumes "mset ys = mset [a, b]"
  shows "ys = [a, b] \<or> ys = [b, a]"
proof -
  from assms have "length ys = length [a, b]" by (rule mset_eq_length)
  then obtain u v where ys: "ys = [u, v]"
    by (cases ys; cases "tl ys") auto
  from assms ys have e: "add_mset u {#v#} = add_mset a {#b#}" by simp
  have "set ys = set [a, b]" using assms by (rule mset_eq_setD)
  with ys have "u = a \<or> u = b" by auto
  then show ?thesis
  proof
    assume "u = a"
    with e have "{#v#} = {#b#}" by simp
    with \<open>u = a\<close> ys show ?thesis by simp
  next
    assume "u = b"
    with e have "add_mset b {#v#} = add_mset b {#a#}" by (simp only: add_mset_commute)
    then have "{#v#} = {#a#}" by (simp only: add_mset_add_mset_same_iff)
    with \<open>u = b\<close> ys show ?thesis by simp
  qed
qed

subsection \<open>The dictionary of candidates\<close>

lemma keys_registrar:
  "map fst (registrar v s d p) = (if p \<in> set (map fst d) then map fst d else map fst d @ [p])"
  by (induction d) (force+)

lemma distinct_foldl_registrar:
  "distinct (map fst d) \<Longrightarrow> distinct (map fst (foldl (registrar v s) d ps))"
  by (induction ps arbitrary: d) (simp_all add: keys_registrar)

lemma pontos_registrar:
  "pontos (registrar v s d p) q =
     (if q = p then Some (case pontos d p of None \<Rightarrow> s | Some x \<Rightarrow> max x s) else pontos d q)"
  by (induction d) (auto simp add: pontos_def)

lemma pontos_foldl_registrar:
  "pontos (foldl (registrar v s) d ps) q =
     (if q \<in> set ps then Some (case pontos d q of None \<Rightarrow> s | Some x \<Rightarrow> max x s)
      else pontos d q)"
proof (induction ps arbitrary: d)
  case Nil
  then show ?case by simp
next
  case (Cons p ps)
  show ?case
    by (cases "pontos d q") (auto simp add: Cons.IH pontos_registrar)
qed

lemma junta_Some: "junta (Some x) ss = Some (Max (insert x (set ss)))"
proof (induction ss arbitrary: x)
  case Nil
  then show ?case by simp
next
  case (Cons s ss)
  have "Max (insert (max x s) (set ss)) = Max (insert x (insert s (set ss)))"
    by (cases "set ss = {}") (simp_all add: max.assoc)
  with Cons show ?case by simp
qed

lemma junta_None: "junta None ss = (if ss = [] then None else Some (Max (set ss)))"
  by (cases ss) (simp_all add: junta_Some)

lemma apoio_Cons:
  "apoio matriz ((v, s) # resto) q =
     (if q \<in> set (produtos_de matriz v) then s # apoio matriz resto q else apoio matriz resto q)"
  by (simp add: apoio_def)

lemma apoio_mono:
  "set A \<subseteq> set B \<Longrightarrow> set (apoio matriz A p) \<subseteq> set (apoio matriz B p)"
  by (auto simp add: apoio_def)

subsection \<open>The loop over the neighbours\<close>

lemma pontos_coletar:
  assumes it: "iteracao_valida iterar"
  shows "coletar iterar matriz cs similares d = Inr d' \<Longrightarrow>
   pontos d' q = junta (pontos d q) (if q \<in> set cs then [] else apoio matriz similares q)"
proof (induction similares arbitrary: d)
  case Nil
  then show ?case by (simp add: apoio_def)
next
  case (Cons vs resto)
  obtain v s where vs: "vs = (v, s)" by (cases vs)
  from Cons.prems vs obtain l where l: "loc matriz v = Inr l"
    and rest: "coletar iterar matriz cs resto
        (foldl (registrar v s) d (iterar (positivos l) cs)) = Inr d'"
    by (auto split: sum.splits)
  have pos: "positivos l = produtos_de matriz v" by (rule positivos_loc [OF l])
  have mem: "q \<in> set (iterar (positivos l) cs) \<longleftrightarrow> q \<in> set (produtos_de matriz v) \<and> q \<notin> set cs"
    using it pos by (simp add: iteracao_valida_def)
  show ?case
    unfolding vs Cons.IH [OF rest]
    by (simp add: pontos_foldl_registrar mem apoio_Cons)
qed

lemma distinct_coletar:
  "coletar iterar matriz cs similares d = Inr d' \<Longrightarrow> distinct (map fst d)
     \<Longrightarrow> distinct (map fst d')"
proof (induction similares arbitrary: d)
  case Nil
  then show ?case by simp
next
  case (Cons vs resto)
  obtain v s where vs: "vs = (v, s)" by (cases vs)
  from Cons.prems vs obtain l where
    rest: "coletar iterar matriz cs resto
        (foldl (registrar v s) d (iterar (positivos l) cs)) = Inr d'"
    by (auto split: sum.splits)
  show ?case
    by (rule Cons.IH [OF rest]) (simp add: distinct_foldl_registrar Cons.prems)
qed

lemma coletar_Inr:
  "fst ` set similares \<subseteq> set (index matriz)
     \<Longrightarrow> \<exists>d'. coletar iterar matriz cs similares d = Inr d'"
proof (induction similares arbitrary: d)
  case Nil
  then show ?case by simp
next
  case (Cons vs resto)
  obtain v s where vs: "vs = (v, s)" by (cases vs)
  with Cons.prems have "v \<in> set (index matriz)" by simp
  then obtain l where "loc matriz v = Inr l" using loc_Inr by blast
  moreover have "fst ` set resto \<subseteq> set (index matriz)" using Cons.prems by simp
  ultimately show ?case using Cons.IH vs by simp
qed

lemma in_recomendacoes:
  assumes "coletar iterar matriz cs similares [] = Inr d"
  shows "(p, i) \<in> set d \<longleftrightarrow> map_of d p = Some i"
proof -
  have "distinct (map fst d)" using distinct_coletar [OF assms] by simp
  then show ?thesis by auto
qed

lemma score_coletar:
  assumes "iteracao_valida iterar"
    and "coletar iterar matriz cs similares [] = Inr d" and "(p, i) \<in> set d"
  shows "p \<notin> set cs \<and> apoio matriz similares p \<noteq> []
           \<and> score i = Max (set (apoio matriz similares p))"
proof -
  have "map_of d p = Some i" using assms in_recomendacoes by blast
  then have "pontos d p = Some (score i)" by (simp add: pontos_def)
  moreover have "pontos d p = junta None (if p \<in> set cs then [] else apoio matriz similares p)"
    using pontos_coletar [OF assms(1,2), of p] by (simp add: pontos_def)
  ultimately show ?thesis
    by (auto simp add: junta_None split: if_splits)
qed

lemma coletar_tem:
  assumes "iteracao_valida iterar"
    and "coletar iterar matriz cs similares [] = Inr d" and "p \<notin> set cs"
    and "apoio matriz similares p \<noteq> []"
  shows "\<exists>i. (p, i) \<in> set d \<and> score i = Max (set (apoio matriz similares p))"
proof -
  have "pontos d p = Some (Max (set (apoio matriz similares p)))"
    using pontos_coletar [OF assms(1,2), of p] assms(3,4) by (simp add: pontos_def junta_None)
  then obtain i where "map_of d p = Some i"
    and "score i = Max (set (apoio matriz similares p))"
    by (auto simp add: pontos_def)
  then show ?thesis using in_recomendacoes [OF assms(2)] by blast
qed

subsection \<open>The parts of a successful call\<close>

lemma obter_recomendacoes_Inr:
  assumes "obter_recomendacoes sort_values iterar cliente_id matriz df_similaridade n_vizinhos
             = Inr (pc, similares, recs)"
  shows "\<exists>col d. cliente_id \<in> set (index matriz) \<and> pc = set (produtos_de matriz cliente_id)
           \<and> getitem df_similaridade cliente_id = Inr col
           \<and> similares = fatia1 (sort_values col) (n_vizinhos + 1)
           \<and> coletar iterar matriz (produtos_de matriz cliente_id) similares [] = Inr d
           \<and> recs = ordenar_desc (\<lambda>x. score (snd x)) d"
proof -
  from assms obtain l where l: "loc matriz cliente_id = Inr l"
    by (auto simp add: obter_recomendacoes_def split: sum.splits)
  then have t: "cliente_id \<in> set (index matriz)"
    by (auto simp add: loc_def split: if_splits)
  have pos: "positivos l = produtos_de matriz cliente_id" by (rule positivos_loc [OF l])
  from assms l pos show ?thesis
    by (auto simp add: obter_recomendacoes_def Let_def t split: sum.splits)
qed

text \<open>
  The call succeeds when every label it looks up exists: the target in both matrices and
  the customers of the similarity matrix among the rows of the matrix.
\<close>

lemma obter_recomendacoes_sucesso:
  assumes v: "sort_values_valido sort_values"
    and a: "cliente_id \<in> set (index matriz)" "cliente_id \<in> set (columns df_similaridade)"
    "set (index df_similaridade) \<subseteq> set (index matriz)"
  shows "\<exists>r. obter_recomendacoes sort_values iterar cliente_id matriz df_similaridade n_vizinhos
               = Inr r"
proof -
  from a obtain l where l: "loc matriz cliente_id = Inr l" using loc_Inr by blast
  let ?col = "map (\<lambda>r. (r, cell df_similaridade r cliente_id)) (index df_similaridade)"
  have col: "getitem df_similaridade cliente_id = Inr ?col"
    using a by (simp add: getitem_def)
  let ?sims = "fatia1 (sort_values ?col) (n_vizinhos + 1)"
  have "set ?sims \<subseteq> set ?col"
    using set_fatia1 [of "sort_values ?col"] set_sort_values [OF v, of ?col] by simp
  then have "fst ` set ?sims \<subseteq> set (index matriz)" using a by auto
  from coletar_Inr [OF this] obtain d where
    "coletar iterar matriz (positivos l) ?sims [] = Inr d"
    by blast
  with l col show ?thesis
    by (simp add: obter_recomendacoes_def Let_def)
qed

text \<open>
  Where the target's own score is strictly the greatest of its column, the entry removed
  by the slice is the target's, and the neighbour ranking holds the other customers in
  descending order of similarity, cut to the requested number.
\<close>

lemma ranking_com_alvo_primeiro:
  assumes v: "sort_values_valido sort_values"
    and a: "cliente_id \<in> set (index matriz)" "cliente_id \<in> set (columns df_similaridade)"
    "set (index df_similaridade) \<subseteq> set (index matriz)"
    and t: "cliente_id \<in> set (index df_similaridade)" and d: "distinct (index df_similaridade)"
    and m: "\<forall>c\<in>set (index df_similaridade). c \<noteq> cliente_id \<longrightarrow>
              cell df_similaridade c cliente_id < cell df_similaridade cliente_id cliente_id"
    and k: "0 \<le> n_vizinhos"
  shows "\<exists>pc recs outros.
           obter_recomendacoes sort_values iterar cliente_id matriz df_similaridade n_vizinhos
             = Inr (pc, take (nat n_vizinhos) outros, recs)
           \<and> mset outros = mset (filter (\<lambda>e. fst e \<noteq> cliente_id)
                 (map (\<lambda>r. (r, cell df_similaridade r cliente_id)) (index df_similaridade)))
           \<and> sorted_wrt (\<lambda>a b. snd b \<le> snd a) outros"
proof -
  let ?col = "map (\<lambda>r. (r, cell df_similaridade r cliente_id)) (index df_similaridade)"
  let ?x = "(cliente_id, cell df_similaridade cliente_id cliente_id)"
  from obter_recomendacoes_sucesso [OF v a] obtain pc similares recs where
    r: "obter_recomendacoes sort_values iterar cliente_id matriz df_similaridade n_vizinhos
          = Inr (pc, similares, recs)"
    by (metis prod_cases3)
  have col: "getitem df_similaridade cliente_id = Inr ?col"
    using a by (simp add: getitem_def)
  from obter_recomendacoes_Inr [OF r] col
  have s: "similares = fatia1 (sort_values ?col) (n_vizinhos + 1)" by auto
  have x: "?x \<in> set ?col" using t by auto
  have dc: "distinct ?col" using d by (simp add: distinct_map inj_on_def)
  have mx: "\<forall>y\<in>set ?col. y \<noteq> ?x \<longrightarrow> snd y < snd ?x" using m by auto
  have f: "filter (\<lambda>y. y \<noteq> ?x) ?col = filter (\<lambda>e. fst e \<noteq> cliente_id) ?col"
    by (intro filter_cong) auto
  from sort_values_maximo [OF v x dc mx] f obtain outros where
    o: "sort_values ?col = ?x # outros"
    "mset outros = mset (filter (\<lambda>e. fst e \<noteq> cliente_id) ?col)"
    "sorted_wrt (\<lambda>a b. snd b \<le> snd a) outros"
    by auto
  have "similares = take (nat n_vizinhos) outros"
    using s k o(1) by (simp add: fatia1_nonneg)
  with r o show ?thesis by blast
qed

subsection \<open>Cosine similarity\<close>

lemma dot_commute: "dot arred u v = dot arred v u"
proof -
  have "map (\<lambda>(x, y). arred (x * y)) (zip u v) = map (\<lambda>(x, y). arred (x * y)) (zip v u)"
  proof (induction u arbitrary: v)
    case Nil
    then show ?case by simp
  next
    case (Cons x u)
    then show ?case by (cases v) (simp_all add: mult.commute)
  qed
  then show ?thesis by (simp add: dot_def)
qed













section \<open>Properties\<close>

text \<open>
  C8. The similarity matrix is symmetric: for all customers \<open>i\<close> and \<open>j\<close> the entry at
  (\<open>i\<close>, \<open>j\<close>) of the matrix computed by \<^verbatim>\<open>calcular_similaridades\<close> equals the entry at
  (\<open>j\<close>, \<open>i\<close>), whatever the rounding of the arithmetic is.
\<close>

theorem similaridade_simetrica:
  "cell (calcular_similaridades arred matriz) i j = cell (calcular_similaridades arred matriz) j i"
  by (simp add: calcular_similaridades_def dot_commute)

text \<open>
  C1. The comment in \<^verbatim>\<open>obter_recomendacoes\<close> announces the similar customers
  without the target itself, and the function removes the first entry of the sorted
  column. With two customers who made the same single purchase every similarity is 1.0;
  when customer 1 stays first, the neighbour ranking for target 2 is customer 2 itself,
  with one neighbour requested as with five, and customer 1, the only other customer,
  is left out.
\<close>

theorem alvo_no_proprio_ranking:
  "obter_recomendacoes ordem_estavel em_ordem 2 (criar_matriz_interacao vendas_iguais)
     (calcular_similaridades f64 (criar_matriz_interacao vendas_iguais)) 1
     = Inr ({10}, [(2, 1)], [])
   \<and> obter_recomendacoes ordem_estavel em_ordem 2 (criar_matriz_interacao vendas_iguais)
     (calcular_similaridades f64 (criar_matriz_interacao vendas_iguais)) 5
     = Inr ({10}, [(2, 1)], [])"
  by (simp add: dados avaliar f64_1)

text \<open>
  The defect does not depend on how the tie is ordered: whichever admissible order
  \<^verbatim>\<open>sort_values\<close> has, the two targets get the same sorted column, and the one that is
  not first in it is returned as its own neighbour. (Lemma \<open>ranking_com_alvo_primeiro\<close>
  covers the inputs on which the first entry is the target's.)
\<close>

lemma proprio_vizinho_em_qualquer_ordem:
  assumes v: "sort_values_valido sort_values"
  shows "(\<exists>pc recs. obter_recomendacoes sort_values iterar 1
             (criar_matriz_interacao vendas_iguais)
             (calcular_similaridades f64 (criar_matriz_interacao vendas_iguais)) 1
           = Inr (pc, [(1, 1)], recs))
       \<or> (\<exists>pc recs. obter_recomendacoes sort_values iterar 2
             (criar_matriz_interacao vendas_iguais)
             (calcular_similaridades f64 (criar_matriz_interacao vendas_iguais)) 1
           = Inr (pc, [(2, 1)], recs))"
proof -
  let ?M = "criar_matriz_interacao vendas_iguais"
  let ?S = "calcular_similaridades f64 ?M"
  let ?col = "[(1, 1), (2, 1)] :: serie"
  have c1: "getitem ?S 1 = Inr ?col" and c2: "getitem ?S 2 = Inr ?col"
    by (simp_all add: dados avaliar f64_1)
  have a: "1 \<in> set (index ?M)" "1 \<in> set (columns ?S)" "set (index ?S) \<subseteq> set (index ?M)"
    "2 \<in> set (index ?M)" "2 \<in> set (columns ?S)"
    by (simp_all add: dados avaliar)
  from obter_recomendacoes_sucesso [OF v a(1,2,3)] obtain pc1 s1 r1 where
    r1: "obter_recomendacoes sort_values iterar 1 ?M ?S 1 = Inr (pc1, s1, r1)"
    by (metis prod_cases3)
  from obter_recomendacoes_sucesso [OF v a(4,5,3)] obtain pc2 s2 r2 where
    r2: "obter_recomendacoes sort_values iterar 2 ?M ?S 1 = Inr (pc2, s2, r2)"
    by (metis prod_cases3)
  from obter_recomendacoes_Inr [OF r1] c1 have s1: "s1 = fatia1 (sort_values ?col) (1 + 1)"
    by auto
  from obter_recomendacoes_Inr [OF r2] c2 have s2: "s2 = fatia1 (sort_values ?col) (1 + 1)"
    by auto
  from v have "mset (sort_values ?col) = mset ?col" by (simp add: sort_values_valido_def)
  then have "sort_values ?col = [(1, 1), (2, 1)] \<or> sort_values ?col = [(2, 1), (1, 1)]"
    by (rule mset_par)
  then show ?thesis
  proof
    assume "sort_values ?col = [(1, 1), (2, 1)]"
    with s2 have "s2 = [(2, 1)]" by (simp add: fatia1_def)
    with r2 show ?thesis by blast
  next
    assume "sort_values ?col = [(2, 1), (1, 1)]"
    with s1 have "s1 = [(1, 1)]" by (simp add: fatia1_def)
    with r1 show ?thesis by blast
  qed
qed

text \<open>
  C2. For every (customer, product) pair with at least one record, the pair is a row
  and a column of the matrix built by \<^verbatim>\<open>criar_matriz_interacao\<close> and its cell holds
  the arithmetic mean of the quantities of all records of the pair: their sum divided by
  their number.
\<close>

theorem celula_media_do_grupo:
  "grupo df_vendas c p \<noteq> [] \<Longrightarrow>
   c \<in> set (index (criar_matriz_interacao df_vendas)) \<and>
   p \<in> set (columns (criar_matriz_interacao df_vendas)) \<and>
   cell (criar_matriz_interacao df_vendas) c p
     = sum_list (grupo df_vendas c p) / real (length (grupo df_vendas c p))"
  by (auto simp add: criar_matriz_interacao_def grupo_def mean_def filter_empty_conv)

text \<open>An instance: quantities 1 and 3 recorded for customer 1 and product 10.\<close>

theorem celula_media_do_grupo_exemplo:
  "grupo vendas_duplicadas 1 10 \<noteq> [] \<and>
   1 \<in> set (index (criar_matriz_interacao vendas_duplicadas)) \<and>
   10 \<in> set (columns (criar_matriz_interacao vendas_duplicadas)) \<and>
   cell (criar_matriz_interacao vendas_duplicadas) 1 10 = (1 + 3) / 2"
proof -
  have h: "grupo vendas_duplicadas 1 10 \<noteq> []" by (simp add: dados grupo_def)
  have g: "grupo vendas_duplicadas 1 10 = [1, 3]" by (simp add: dados grupo_def)
  from celula_media_do_grupo [OF h] h show ?thesis by (simp add: g)
qed

text \<open>The same input shows that the cell is not the sum: it holds 2, the sum is 4.\<close>

theorem duplicatas_nao_somadas:
  "cell (criar_matriz_interacao vendas_duplicadas) 1 10 = 2
   \<and> sum_list (grupo vendas_duplicadas 1 10) = 4"
  by (simp add: dados avaliar)

text \<open>
  C3. If the target is not a row of the matrix, \<^verbatim>\<open>obter_recomendacoes\<close> fails with
  the \<^verbatim>\<open>KeyError\<close> of the label lookup, carrying the target. If the target is a row
  of the matrix and a column of the similarity matrix, and every customer of the
  similarity matrix is a row of the matrix, the call returns a result.
\<close>

theorem cliente_ausente_KeyError:
  "(cliente_id \<notin> set (index matriz) \<longrightarrow>
      obter_recomendacoes sort_values iterar cliente_id matriz df_similaridade n_vizinhos
        = Inl (KeyError cliente_id)) \<and>
   (sort_values_valido sort_values \<and>
    cliente_id \<in> set (index matriz) \<and> cliente_id \<in> set (columns df_similaridade) \<and>
    set (index df_similaridade) \<subseteq> set (index matriz) \<longrightarrow>
      (\<exists>r. obter_recomendacoes sort_values iterar cliente_id matriz df_similaridade n_vizinhos
             = Inr r))"
proof (intro conjI impI)
  assume "cliente_id \<notin> set (index matriz)"
  then show "obter_recomendacoes sort_values iterar cliente_id matriz df_similaridade n_vizinhos
               = Inl (KeyError cliente_id)"
    by (simp add: obter_recomendacoes_def loc_def)
next
  assume "sort_values_valido sort_values \<and>
    cliente_id \<in> set (index matriz) \<and> cliente_id \<in> set (columns df_similaridade) \<and>
    set (index df_similaridade) \<subseteq> set (index matriz)"
  then show "\<exists>r. obter_recomendacoes sort_values iterar cliente_id matriz df_similaridade
                  n_vizinhos = Inr r"
    by (intro obter_recomendacoes_sucesso) simp_all
qed

text \<open>
  An instance of both halves on the sample data: customer 9 is unknown, customer 1 is
  known.
\<close>

theorem cliente_ausente_KeyError_exemplo:
  "9 \<notin> set (index matriz_ex) \<and>
   obter_recomendacoes ordem_estavel em_ordem 9 matriz_ex sim_ex 2 = Inl (KeyError 9) \<and>
   sort_values_valido ordem_estavel \<and>
   1 \<in> set (index matriz_ex) \<and> 1 \<in> set (columns sim_ex) \<and>
   set (index sim_ex) \<subseteq> set (index matriz_ex) \<and>
   (\<exists>r. obter_recomendacoes ordem_estavel em_ordem 1 matriz_ex sim_ex 2 = Inr r)"
proof -
  have a: "9 \<notin> set (index matriz_ex)" by (simp add: dados avaliar)
  have b: "1 \<in> set (index matriz_ex) \<and> 1 \<in> set (columns sim_ex) \<and>
    set (index sim_ex) \<subseteq> set (index matriz_ex)" by (simp add: dados avaliar)
  note v = ordem_estavel_valida
  from cliente_ausente_KeyError [of 9 matriz_ex ordem_estavel em_ordem sim_ex 2] a
  have 1: "obter_recomendacoes ordem_estavel em_ordem 9 matriz_ex sim_ex 2 = Inl (KeyError 9)"
    by blast
  from cliente_ausente_KeyError [of 1 matriz_ex ordem_estavel em_ordem sim_ex 2] b v
  have 2: "\<exists>r. obter_recomendacoes ordem_estavel em_ordem 1 matriz_ex sim_ex 2 = Inr r"
    by blast
  from a b v 1 2 show ?thesis by blast
qed

text \<open>
  The error of an unknown target is the lookup's \<^verbatim>\<open>KeyError\<close>, and the same kind of
  error is raised for a known target when the similarity matrix names a customer who is
  not a row of the matrix.
\<close>

theorem erro_e_KeyError:
  "obter_recomendacoes ordem_estavel em_ordem 9 matriz_ex sim_ex 2 = Inl (KeyError 9)
   \<and> 1 \<in> set (index matriz_ex)
   \<and> obter_recomendacoes ordem_estavel em_ordem 1 matriz_ex sim_alheia 1 = Inl (KeyError 7)"
  by (simp add: dados avaliar)

text \<open>
  C4. \<^verbatim>\<open>criar_matriz_interacao\<close> has no failure path: for every sequence of records it
  returns the matrix whose rows are the customers and whose columns are the products that
  occur in the records, and the matrix has no rows (and no columns) exactly when the
  sequence is empty.
\<close>

theorem rotulos_da_matriz:
  "set (index (criar_matriz_interacao df_vendas)) = CustomerKey ` set df_vendas \<and>
   set (columns (criar_matriz_interacao df_vendas)) = ProductKey ` set df_vendas \<and>
   (index (criar_matriz_interacao df_vendas) = []) = (df_vendas = []) \<and>
   (columns (criar_matriz_interacao df_vendas) = []) = (df_vendas = [])"
proof -
  have "(sort (remdups (map CustomerKey df_vendas)) = []) = (df_vendas = [])"
    by (metis length_0_conv length_sort map_is_Nil_conv remdups_eq_nil_iff)
  moreover have "(sort (remdups (map ProductKey df_vendas)) = []) = (df_vendas = [])"
    by (metis length_0_conv length_sort map_is_Nil_conv remdups_eq_nil_iff)
  ultimately show ?thesis by (simp add: criar_matriz_interacao_def)
qed

text \<open>On the empty sequence the function returns the matrix without rows and columns.\<close>

theorem entrada_vazia_devolve_matriz:
  "index (criar_matriz_interacao []) = [] \<and> columns (criar_matriz_interacao []) = []"
  by (simp add: criar_matriz_interacao_def)

text \<open>
  C5. In every result of \<^verbatim>\<open>obter_recomendacoes\<close>, the score of a recommended product
  is the maximum of the similarity scores of the selected neighbours that bought it, and
  at least one of them did. Consequently, when the call is repeated with more neighbours
  (from a non-negative count), the product is still recommended and its score has not
  decreased.
\<close>

theorem score_maximo:
  assumes it: "iteracao_valida iterar"
    and "obter_recomendacoes sort_values iterar cliente_id matriz df_similaridade n_vizinhos
             = Inr (pc, similares, recs)"
    and "(produto, i) \<in> set recs"
  shows "apoio matriz similares produto \<noteq> [] \<and>
         score i = Max (set (apoio matriz similares produto)) \<and>
         (\<forall>n' pc' similares' recs'. 0 \<le> n_vizinhos \<longrightarrow> n_vizinhos \<le> n' \<longrightarrow>
            obter_recomendacoes sort_values iterar cliente_id matriz df_similaridade n'
              = Inr (pc', similares', recs') \<longrightarrow>
            (\<exists>i'. (produto, i') \<in> set recs' \<and> score i \<le> score i'))"
proof -
  let ?cs = "produtos_de matriz cliente_id"
  from obter_recomendacoes_Inr [OF assms(2)] obtain col d where
    col: "getitem df_similaridade cliente_id = Inr col" and
    sims: "similares = fatia1 (sort_values col) (n_vizinhos + 1)" and
    d: "coletar iterar matriz ?cs similares [] = Inr d" and
    r: "recs = ordenar_desc (\<lambda>x. score (snd x)) d"
    by blast
  from assms(3) r have mem: "(produto, i) \<in> set d" by simp
  from score_coletar [OF it d mem] have
    notpc: "produto \<notin> set ?cs" and ne: "apoio matriz similares produto \<noteq> []"
    and sc: "score i = Max (set (apoio matriz similares produto))"
    by simp_all
  have mono: "\<exists>i'. (produto, i') \<in> set recs' \<and> score i \<le> score i'"
    if k: "0 \<le> n_vizinhos" "n_vizinhos \<le> n'"
      and r': "obter_recomendacoes sort_values iterar cliente_id matriz df_similaridade n'
                 = Inr (pc', similares', recs')"
    for n' pc' similares' recs'
  proof -
    from obter_recomendacoes_Inr [OF r'] col obtain d' where
      sims': "similares' = fatia1 (sort_values col) (n' + 1)" and
      d': "coletar iterar matriz ?cs similares' [] = Inr d'" and
      rr': "recs' = ordenar_desc (\<lambda>x. score (snd x)) d'"
      by auto
    have sub: "set (apoio matriz similares produto) \<subseteq> set (apoio matriz similares' produto)"
      unfolding sims sims' by (rule apoio_mono, rule set_fatia1_mono [OF k])
    with ne have ne': "apoio matriz similares' produto \<noteq> []" by auto
    from coletar_tem [OF it d' notpc ne'] obtain i' where
      i': "(produto, i') \<in> set d'" "score i' = Max (set (apoio matriz similares' produto))"
      by blast
    have "Max (set (apoio matriz similares produto)) \<le> Max (set (apoio matriz similares' produto))"
      using sub ne by (intro Max_mono) simp_all
    with i' sc rr' show ?thesis by auto
  qed
  from ne sc mono show ?thesis by blast
qed

text \<open>
  An instance: with two neighbours product 30 is supported by customers 3 and 2 and
  scores the larger of 16/25 and 12/25; with three neighbours it keeps that score.
\<close>

theorem score_maximo_exemplo:
  "iteracao_valida em_ordem \<and>
   obter_recomendacoes ordem_estavel em_ordem 1 matriz_ex sim_ex 2 =
     Inr ({10, 20}, [(3, 16/25), (2, 12/25)], [(30, \<lparr>score = 16/25, vizinhos = [3, 2]\<rparr>)]) \<and>
   apoio matriz_ex [(3, 16/25), (2, 12/25)] 30 = [16/25, 12/25] \<and>
   score \<lparr>score = 16/25, vizinhos = [3, 2]\<rparr>
     = Max (set (apoio matriz_ex [(3, 16/25), (2, 12/25)] 30)) \<and>
   obter_recomendacoes ordem_estavel em_ordem 1 matriz_ex sim_ex 3 =
     Inr ({10, 20}, [(3, 16/25), (2, 12/25), (4, 9/25)],
          [(30, \<lparr>score = 16/25, vizinhos = [3, 2]\<rparr>), (40, \<lparr>score = 9/25, vizinhos = [4]\<rparr>)]) \<and>
   (\<exists>i'. (30::int, i')
          \<in> set [(30, \<lparr>score = 16/25, vizinhos = [3, 2]\<rparr>), (40, \<lparr>score = 9/25, vizinhos = [4]\<rparr>)]
       \<and> score \<lparr>score = 16/25, vizinhos = [3, 2]\<rparr> \<le> score i')"
proof -
  let ?i = "\<lparr>score = 16/25, vizinhos = [3, 2]\<rparr>"
  have r2: "obter_recomendacoes ordem_estavel em_ordem 1 matriz_ex sim_ex 2 =
     Inr ({10, 20}, [(3, 16/25), (2, 12/25)], [(30, ?i)])"
    by (simp add: dados avaliar)
  have r3: "obter_recomendacoes ordem_estavel em_ordem 1 matriz_ex sim_ex 3 =
     Inr ({10, 20}, [(3, 16/25), (2, 12/25), (4, 9/25)],
          [(30, ?i), (40, \<lparr>score = 9/25, vizinhos = [4]\<rparr>)])"
    by (simp add: dados avaliar)
  have ap: "apoio matriz_ex [(3, 16/25), (2, 12/25)] 30 = [16/25, 12/25]"
    by (simp add: apoio_def produtos_de_def dados avaliar)
  have mem: "(30, ?i) \<in> set [(30, ?i)]" by simp
  note t = score_maximo [OF em_ordem_valida r2 mem]
  from t have s: "score ?i = Max (set (apoio matriz_ex [(3, 16/25), (2, 12/25)] 30))" by blast
  have k: "(0::int) \<le> 2" "(2::int) \<le> 3" by simp_all
  from t have "\<forall>n' pc' similares' recs'. (0::int) \<le> 2 \<longrightarrow> 2 \<le> n' \<longrightarrow>
      obter_recomendacoes ordem_estavel em_ordem 1 matriz_ex sim_ex n'
        = Inr (pc', similares', recs') \<longrightarrow>
      (\<exists>i'. (30, i') \<in> set recs' \<and> score ?i \<le> score i')" by blast
  from this [rule_format, OF k r3]
  have m: "\<exists>i'. (30::int, i') \<in> set [(30, ?i), (40, \<lparr>score = 9/25, vizinhos = [4]\<rparr>)]
       \<and> score ?i \<le> score i'" .
  from em_ordem_valida r2 r3 ap s m show ?thesis by blast
qed








text \<open>
  C9. In every result of \<^verbatim>\<open>obter_recomendacoes\<close>, no recommended product belongs to
  the returned set of products the target has bought.
\<close>

theorem recomendados_nao_comprados:
  assumes it: "iteracao_valida iterar"
    and "obter_recomendacoes sort_values iterar cliente_id matriz df_similaridade n_vizinhos
             = Inr (pc, similares, recs)"
    and "(produto, i) \<in> set recs"
  shows "produto \<notin> pc"
proof -
  from obter_recomendacoes_Inr [OF assms(2)] obtain d where
    pc: "pc = set (produtos_de matriz cliente_id)" and
    d: "coletar iterar matriz (produtos_de matriz cliente_id) similares [] = Inr d" and
    r: "recs = ordenar_desc (\<lambda>x. score (snd x)) d"
    by blast
  from assms(3) r have "(produto, i) \<in> set d" by simp
  with score_coletar [OF it d] pc show ?thesis by blast
qed

text \<open>
  An instance: product 40 is recommended to customer 1, who bought products 10 and 20.
\<close>

theorem recomendados_nao_comprados_exemplo:
  "iteracao_valida em_ordem \<and>
   obter_recomendacoes ordem_estavel em_ordem 1 matriz_ex sim_ex 3 =
     Inr ({10, 20}, [(3, 16/25), (2, 12/25), (4, 9/25)],
          [(30, \<lparr>score = 16/25, vizinhos = [3, 2]\<rparr>), (40, \<lparr>score = 9/25, vizinhos = [4]\<rparr>)]) \<and>
   (40::int, \<lparr>score = 9/25, vizinhos = [4]\<rparr>)
     \<in> set [(30, \<lparr>score = 16/25, vizinhos = [3, 2]\<rparr>), (40, \<lparr>score = 9/25, vizinhos = [4]\<rparr>)] \<and>
   (40::int) \<notin> {10, 20}"
proof -
  have r3: "obter_recomendacoes ordem_estavel em_ordem 1 matriz_ex sim_ex 3 =
     Inr ({10, 20}, [(3, 16/25), (2, 12/25), (4, 9/25)],
          [(30, \<lparr>score = 16/25, vizinhos = [3, 2]\<rparr>), (40, \<lparr>score = 9/25, vizinhos = [4]\<rparr>)])"
    by (simp add: dados avaliar)
  have mem: "(40, \<lparr>score = 9/25, vizinhos = [4]\<rparr>)
     \<in> set [(30, \<lparr>score = 16/25, vizinhos = [3, 2]\<rparr>), (40::int, \<lparr>score = 9/25, vizinhos = [4]\<rparr>)]"
    by simp
  from recomendados_nao_comprados [OF em_ordem_valida r3 mem] em_ordem_valida r3 mem
  show ?thesis by blast
qed

text \<open>
  C10. For a target that is a row of the matrix and a column of the similarity matrix,
  \<^verbatim>\<open>obter_recomendacoes\<close> with neighbour count 0 raises no error: it returns the
  products the target bought, an empty neighbour ranking and no recommendations.
\<close>

theorem zero_vizinhos:
  assumes "cliente_id \<in> set (index matriz)" and "cliente_id \<in> set (columns df_similaridade)"
  shows "obter_recomendacoes sort_values iterar cliente_id matriz df_similaridade 0
           = Inr (set (produtos_de matriz cliente_id), [], [])"
  using assms
  by (auto simp add: obter_recomendacoes_def loc_def getitem_def fatia1_def Let_def min_def
      drop_take positivos_def produtos_de_def filter_map comp_def ordenar_desc_def)

text \<open>An instance: customer 1 of the sample data.\<close>

theorem zero_vizinhos_exemplo:
  "1 \<in> set (index matriz_ex) \<and> 1 \<in> set (columns sim_ex) \<and>
   set (produtos_de matriz_ex 1) = {10, 20} \<and>
   obter_recomendacoes ordem_estavel em_ordem 1 matriz_ex sim_ex 0
     = Inr (set (produtos_de matriz_ex 1), [], [])"
proof -
  have a: "1 \<in> set (index matriz_ex)" and b: "1 \<in> set (columns sim_ex)"
    by (simp_all add: dados avaliar)
  have c: "set (produtos_de matriz_ex 1) = {10, 20}"
    by (auto simp add: produtos_de_def dados avaliar)
  from zero_vizinhos [OF a b, of ordem_estavel em_ordem] a b c show ?thesis by blast
qed

text \<open>
  Without the second condition the call fails also with neighbour count 0, because the
  column of the target is looked up before the slice is taken: customer 2 is a row of the
  sample matrix and not a column of the similarity matrix over customers 1 and 7.
\<close>

theorem zero_vizinhos_sem_coluna:
  "2 \<in> set (index matriz_ex) \<and> 2 \<notin> set (columns sim_alheia) \<and>
   obter_recomendacoes ordem_estavel em_ordem 2 matriz_ex sim_alheia 0 = Inl (KeyError 2)"
  by (simp add: dados avaliar)

end
